theory Spec2Isabelle
  imports Main "HOL-Library.Sublist" "HOL-Library.AList"
begin

section \<open>Data model\<close>

text \<open>
  The struct \<^verbatim>\<open>RDSInstance\<close> is declared outside the files at hand; the fields below
  are the ones that \<^verbatim>\<open>parameter_group.go\<close> and the table of \<^verbatim>\<open>TestModifyInstance\<close>
  read and write. \<^verbatim>\<open>parameter_group.go\<close> uses \<^verbatim>\<open>EnablePgCron\<close> as a plain \<^verbatim>\<open>bool\<close>
  (\<^verbatim>\<open>i.EnablePgCron && ...\<close>), while the test table stores a \<^verbatim>\<open>*bool\<close>
  (\<^verbatim>\<open>aws.Bool(true)\<close>), so the type of that field is a parameter of the record:
  \<open>bool\<close> for the parameter-group code, \<open>bool option\<close> for \<^verbatim>\<open>modify\<close>.
  The integer fields are Go \<^verbatim>\<open>int64\<close>; they are only compared and copied, never computed
  with, so they are modelled as \<open>int\<close>. Receivers and arguments that Go passes by pointer
  (the instance, the adapter) are taken to be non-nil; the pointers inside the values that
  come back from the control plane are not.
\<close>

record 'p RDSInstance =
  Database :: string
  DbType :: string
  DbVersion :: string
  AllocatedStorage :: int
  BackupRetentionPeriod :: int
  BinaryLogFormat :: string
  EnableFunctions :: bool
  EnablePgCron :: 'p
  ParameterGroupFamily :: string

record Settings =
  EnableFunctionsFeature :: bool


text \<open>
  A Go \<^verbatim>\<open>error\<close> value. \<^verbatim>\<open>AwsErr code message\<close> is a value that implements
  \<^verbatim>\<open>awserr.Error\<close>; \<^verbatim>\<open>OtherErr\<close> is any other error value; \<^verbatim>\<open>Wrapped\<close> is the
  result of \<^verbatim>\<open>fmt.Errorf("...: %w", err)\<close>, which does not implement \<^verbatim>\<open>awserr.Error\<close>.
\<close>

datatype error =
    AwsErr string string
  | OtherErr string
  | Wrapped string error


text \<open>
  A Go function either returns or panics (nil dereference, index out of range, failed
  type assertion).
\<close>

datatype 'a outcome = Panics | Returns 'a

subsection \<open>The control plane\<close>

text \<open>
  Values handed back by the control plane. Every Go pointer that the code dereferences
  is an \<open>option\<close>, \<open>None\<close> being nil.
\<close>

record DBEngineVersion =
  DBParameterGroupFamily :: "string option"

type_synonym DescribeDBEngineVersionsOutput = "DBEngineVersion option list"

record Parameter =
  ParameterName :: "string option"
  ParameterValue :: "string option"

record EngineDefaults =
  Parameters :: "Parameter option list"
  Marker :: "string option"

type_synonym DescribeEngineDefaultParametersOutput = "EngineDefaults option"

record DBParameterGroup =
  DBParameterGroupName :: "string option"

type_synonym DescribeDBParameterGroupsOutput = "DBParameterGroup option list"

text \<open>
  The interface \<^verbatim>\<open>rdsiface.RDSAPI\<close>, restricted to the operations the code invokes. The
  control plane has a state of its own (\<open>'st\<close>); each operation takes the fields that the
  code sets in its input struct, and returns either an error or its output together with
  the next state. Where the code discards the output, only the error is kept.
  \<^verbatim>\<open>DescribeDBParameterGroupsPages\<close> belongs to the SDK: it is taken as the list of
  pages it hands to the callback, and the error it returns at the end.
\<close>

record 'st RDSAPI =
  DescribeDBEngineVersions ::
    "bool \<Rightarrow> string \<Rightarrow> 'st \<Rightarrow> (error + DescribeDBEngineVersionsOutput option) \<times> 'st"
  DescribeDBParameters ::
    "string \<Rightarrow> int \<Rightarrow> string \<Rightarrow> 'st \<Rightarrow> error option \<times> 'st"
  CreateDBParameterGroup ::
    "string \<Rightarrow> string \<Rightarrow> string \<Rightarrow> 'st \<Rightarrow> error option \<times> 'st"
  ModifyDBParameterGroup ::
    "string \<Rightarrow> (string \<times> string \<times> string) list \<Rightarrow> 'st \<Rightarrow> error option \<times> 'st"
  DescribeEngineDefaultParameters ::
    "string \<Rightarrow> string option \<Rightarrow> 'st
       \<Rightarrow> (error + DescribeEngineDefaultParametersOutput option) \<times> 'st"
  DescribeDBParameterGroupsPages ::
    "'st \<Rightarrow> (DescribeDBParameterGroupsOutput list \<times> error option) \<times> 'st"
  DeleteDBParameterGroup ::
    "string \<Rightarrow> 'st \<Rightarrow> error option \<times> 'st"

text \<open>
  What the code does to the outside world is recorded in order: every call to the
  control plane with its input, and every line written with \<^verbatim>\<open>log.Printf\<close>.
\<close>

datatype event =
    CallDescribeDBEngineVersions bool string
  | CallDescribeDBParameters string int string
  | CallCreateDBParameterGroup string string string
  | CallModifyDBParameterGroup string "(string \<times> string \<times> string) list"
  | CallDescribeEngineDefaultParameters string "string option"
  | CallDescribeDBParameterGroupsPages
  | CallDeleteDBParameterGroup string
  | LogLine string

type_synonym 'st world = "'st \<times> event list"

definition logPrintf :: "string \<Rightarrow> 'st world \<Rightarrow> 'st world" where
  "logPrintf line w = (fst w, snd w @ [LogLine line])"

definition svcDescribeDBEngineVersions ::
  "'st RDSAPI \<Rightarrow> bool \<Rightarrow> string \<Rightarrow> 'st world
     \<Rightarrow> (error + DescribeDBEngineVersionsOutput option) \<times> 'st world" where
  "svcDescribeDBEngineVersions svc defaultOnly engine w =
     (let (r, s') = DescribeDBEngineVersions svc defaultOnly engine (fst w)
      in (r, (s', snd w @ [CallDescribeDBEngineVersions defaultOnly engine])))"




definition svcDescribeEngineDefaultParameters ::
  "'st RDSAPI \<Rightarrow> string \<Rightarrow> string option \<Rightarrow> 'st world
     \<Rightarrow> (error + DescribeEngineDefaultParametersOutput option) \<times> 'st world" where
  "svcDescribeEngineDefaultParameters svc family marker w =
     (let (r, s') = DescribeEngineDefaultParameters svc family marker (fst w)
      in (r, (s', snd w @ [CallDescribeEngineDefaultParameters family marker])))"



section \<open>parameter\_group.go\<close>



definition pgCronLibraryName :: string where
  "pgCronLibraryName = ''pg_cron''"

subsection \<open>needCustomParameters\<close>

definition needCustomParameters :: "bool RDSInstance \<Rightarrow> Settings \<Rightarrow> bool" where
  "needCustomParameters i s =
     (if EnableFunctions i \<and> EnableFunctionsFeature s \<and> DbType i = ''mysql'' then True
      else if BinaryLogFormat i \<noteq> [] \<and> DbType i = ''mysql'' then True
      else if EnablePgCron i \<and> DbType i = ''postgres'' then True
      else False)"

subsection \<open>getParameterGroupFamily\<close>

definition isDigit :: "char \<Rightarrow> bool" where
  "isDigit c = (c \<in> set ''0123456789'')"

definition isDot :: "char \<Rightarrow> bool" where
  "isDot c = (c = CHR ''.'')"

text \<open>
  \<^verbatim>\<open>re.Find\<close> for the pattern \<^verbatim>\<open>^\d+\.*\d*\<close>: anchored at the start, one or more
  digits, then as many dots as follow, then as many digits as follow; each repetition is
  greedy and none has to give anything back, since what follows it may be empty. When the
  text does not start with a digit there is no match, \<^verbatim>\<open>Find\<close> returns nil and
  \<^verbatim>\<open>string(nil)\<close> is the empty string.
\<close>

definition reFindVersion :: "string \<Rightarrow> string" where
  "reFindVersion v =
     (let digits = takeWhile isDigit v;
          rest = dropWhile isDigit v;
          dots = takeWhile isDot rest;
          rest' = dropWhile isDot rest;
          digits' = takeWhile isDigit rest'
      in if digits = [] then [] else digits @ dots @ digits')"

definition getParameterGroupFamily ::
  "'st RDSAPI \<Rightarrow> 'p RDSInstance \<Rightarrow> 'st world
     \<Rightarrow> error option outcome \<times> 'p RDSInstance \<times> 'st world" where
  "getParameterGroupFamily svc i w =
     (if ParameterGroupFamily i \<noteq> [] then (Returns None, i, w)
      else if DbVersion i = [] then
        (case svcDescribeDBEngineVersions svc True (DbType i) w of
           (Inl err, w') \<Rightarrow> (Returns (Some err), i, w')
         | (Inr None, w') \<Rightarrow> (Panics, i, w')
         | (Inr (Some []), w') \<Rightarrow> (Panics, i, w')
         | (Inr (Some (None # _)), w') \<Rightarrow> (Panics, i, w')
         | (Inr (Some (Some v # _)), w') \<Rightarrow>
             (case DBParameterGroupFamily v of
                None \<Rightarrow> (Panics, i, w')
              | Some parameterGroupFamily \<Rightarrow>
                  (Returns None, i\<lparr>ParameterGroupFamily := parameterGroupFamily\<rparr>, w')))
      else
        (Returns None,
         i\<lparr>ParameterGroupFamily := DbType i @ reFindVersion (DbVersion i)\<rparr>, w))"

subsection \<open>checkIfParameterGroupExists and createOrModifyCustomParameterGroup\<close>


text \<open>
  \<^verbatim>\<open>map[string]map[string]string\<close> is an association list with one entry per key
  (\<open>AList.update\<close> replaces). Go leaves the order in which \<^verbatim>\<open>range\<close> visits a map
  unspecified; the model visits the entries in the order of the list, and nothing below
  depends on that order.
\<close>

type_synonym customparams = "(string \<times> (string \<times> string) list) list"




subsection \<open>getDefaultEngineParameter\<close>

datatype scanResult = Found string | NotFound | NilDereference

text \<open>
  The inner \<^verbatim>\<open>for ... range result.EngineDefaults.Parameters\<close>: the first parameter
  whose name equals \<open>paramName\<close> ends the scan; a nil parameter, a nil name, or a nil value at
  the match is a nil dereference.
\<close>

fun scanParameters :: "string \<Rightarrow> Parameter option list \<Rightarrow> scanResult" where
  "scanParameters paramName [] = NotFound"
| "scanParameters paramName (None # params) = NilDereference"
| "scanParameters paramName (Some param # params) =
     (case ParameterName param of
        None \<Rightarrow> NilDereference
      | Some name \<Rightarrow>
          if name = paramName then
            (case ParameterValue param of
               None \<Rightarrow> NilDereference
             | Some v \<Rightarrow> Found v)
          else scanParameters paramName params)"

text \<open>
  The outer \<^verbatim>\<open>for { ... }\<close>. It has no bound of its own, so it is a partial function:
  \<open>None\<close> means that the loop never ends.
\<close>

partial_function (option) getDefaultEngineParameter_loop ::
  "'st RDSAPI \<Rightarrow> string \<Rightarrow> string \<Rightarrow> string option \<Rightarrow> 'st world
     \<Rightarrow> ((string \<times> error option) outcome \<times> 'st world) option" where
  "getDefaultEngineParameter_loop svc paramName family marker w =
     (case svcDescribeEngineDefaultParameters svc family marker w of
        (Inl err, w') \<Rightarrow> Some (Returns ([], Some err), w')
      | (Inr None, w') \<Rightarrow> Some (Panics, w')
      | (Inr (Some None), w') \<Rightarrow> Some (Panics, w')
      | (Inr (Some (Some defaults)), w') \<Rightarrow>
          (case scanParameters paramName (Parameters defaults) of
             NilDereference \<Rightarrow> Some (Panics, w')
           | Found v \<Rightarrow>
               Some (Returns (v, None),
                     logPrintf (''found default parameter value '' @ v
                       @ '' for parameter '' @ paramName) w')
           | NotFound \<Rightarrow>
               if Marker defaults = None \<or> Marker defaults = Some []
               then Some (Returns ([], None), w')
               else getDefaultEngineParameter_loop svc paramName family (Marker defaults) w'))"

declare getDefaultEngineParameter_loop.simps [code]

definition getDefaultEngineParameter ::
  "'st RDSAPI \<Rightarrow> string \<Rightarrow> 'p RDSInstance \<Rightarrow> 'st world
     \<Rightarrow> ((string \<times> error option) outcome \<times> 'p RDSInstance \<times> 'st world) option" where
  "getDefaultEngineParameter svc paramName i w =
     (case getParameterGroupFamily svc i w of
        (Panics, i', w') \<Rightarrow> Some (Panics, i', w')
      | (Returns (Some err), i', w') \<Rightarrow> Some (Returns ([], Some err), i', w')
      | (Returns None, i', w') \<Rightarrow>
          (case getDefaultEngineParameter_loop svc paramName (ParameterGroupFamily i') None w' of
             None \<Rightarrow> None
           | Some (r, w'') \<Rightarrow> Some (r, i', w'')))"

subsection \<open>buildCustomSharePreloadLibrariesParam and getCustomParameters\<close>

text \<open>\<^verbatim>\<open>strings.Join\<close>.\<close>

fun stringsJoin :: "string list \<Rightarrow> string \<Rightarrow> string" where
  "stringsJoin [] sep = []"
| "stringsJoin [x] sep = x"
| "stringsJoin (x # y # ys) sep = x @ sep @ stringsJoin (y # ys) sep"

definition buildCustomSharePreloadLibrariesParam ::
  "'st RDSAPI \<Rightarrow> 'p RDSInstance \<Rightarrow> string \<Rightarrow> 'st world
     \<Rightarrow> ((string \<times> error option) outcome \<times> 'p RDSInstance \<times> 'st world) option" where
  "buildCustomSharePreloadLibrariesParam svc i customLibrary w =
     (case getDefaultEngineParameter svc ''shared_preload_libraries'' i w of
        None \<Rightarrow> None
      | Some (Panics, i', w') \<Rightarrow> Some (Panics, i', w')
      | Some (Returns (_, Some err), i', w') \<Rightarrow> Some (Returns ([], Some err), i', w')
      | Some (Returns (defaultSharedPreloadLibraries, None), i', w') \<Rightarrow>
          (let libraries = [customLibrary];
               libraries = (if defaultSharedPreloadLibraries \<noteq> []
                            then libraries @ [defaultSharedPreloadLibraries]
                            else libraries)
           in Some (Returns (stringsJoin libraries '','', None), i', w')))"

definition mysqlCustomParameters :: "bool RDSInstance \<Rightarrow> Settings \<Rightarrow> customparams" where
  "mysqlCustomParameters i s =
     (if DbType i = ''mysql'' then
        (let m = [];
             m = (if EnableFunctions i \<and> EnableFunctionsFeature s
                  then AList.update ''log_bin_trust_function_creators'' ''1'' m
                  else AList.update ''log_bin_trust_function_creators'' ''0'' m);
             m = (if BinaryLogFormat i \<noteq> []
                  then AList.update ''binlog_format'' (BinaryLogFormat i) m
                  else m)
         in AList.update ''mysql'' m [])
      else [])"

text \<open>
  The first \<^verbatim>\<open>if\<close> of \<^verbatim>\<open>getCustomParameters\<close> (engine type mysql) calls nothing and is
  \<open>mysqlCustomParameters\<close>; the second (engine type postgres) follows it.
\<close>

definition getCustomParameters ::
  "'st RDSAPI \<Rightarrow> bool RDSInstance \<Rightarrow> Settings \<Rightarrow> 'st world
     \<Rightarrow> ((customparams \<times> error option) outcome \<times> bool RDSInstance \<times> 'st world) option" where
  "getCustomParameters svc i s w =
     (let customRDSParameters = mysqlCustomParameters i s
      in if DbType i = ''postgres'' then
           (if EnablePgCron i then
              (case buildCustomSharePreloadLibrariesParam svc i pgCronLibraryName w of
                 None \<Rightarrow> None
               | Some (Panics, i', w') \<Rightarrow> Some (Panics, i', w')
               | Some (Returns (_, Some err), i', w') \<Rightarrow> Some (Returns ([], Some err), i', w')
               | Some (Returns (preloadLibrariesParam, None), i', w') \<Rightarrow>
                   Some (Returns (AList.update ''postgres''
                           (AList.update ''shared_preload_libraries'' preloadLibrariesParam [])
                           customRDSParameters, None), i', w'))
            else Some (Returns (AList.update ''postgres'' [] customRDSParameters, None), i, w))
         else Some (Returns (customRDSParameters, None), i, w))"

subsection \<open>ProvisionCustomParameterGroupIfNecessary\<close>


subsection \<open>cleanupCustomParameterGroups\<close>




section \<open>modify and the table of TestModifyInstance\<close>

text \<open>
  The structs \<^verbatim>\<open>Options\<close> and \<^verbatim>\<open>catalog.RDSPlan\<close>, with the fields that the test table
  sets. \<^verbatim>\<open>Options.EnablePgCron\<close> is a \<^verbatim>\<open>*bool\<close>: absent, true or false.
\<close>

record Options =
  Options_AllocatedStorage :: int
  Options_BackupRetentionPeriod :: int
  Options_BinaryLogFormat :: string
  Options_EnablePgCron :: "bool option"

record RDSPlan =
  RDSPlan_DbVersion :: string

text \<open>
  Modelled from the spec: the body of \<^verbatim>\<open>RDSInstance.modify\<close> is outside the files at
  hand; only its test table is there. Section 4.1 of the specification gives the policy of
  each field, applied in this order and independently of one another: allocated storage
  (0 changes nothing, a smaller value is a validation error and changes nothing, any other
  value is stored), backup retention period (0 changes nothing, any other value is stored),
  binary log format (empty changes nothing), the pg-cron flag, and the engine version of
  the plan (stored when not empty). For the pg-cron flag the test table decides, because
  it disagrees with section 4.1: the case \<^verbatim>\<open>enable PG cron not specified on options, true on
  existing instance\<close> expects an instance whose flag is nil, so the pointer of the options is
  copied whether or not it is nil.
\<close>

definition modify ::
  "bool option RDSInstance \<Rightarrow> Options \<Rightarrow> RDSPlan \<Rightarrow> Settings
     \<Rightarrow> error option \<times> bool option RDSInstance" where
  "modify i options plan s =
     (let (err, i) =
            (if Options_AllocatedStorage options = 0 then (None, i)
             else if Options_AllocatedStorage options < AllocatedStorage i
               then (Some (OtherErr ''storage cannot be decreased''), i)
             else (None, i\<lparr>AllocatedStorage := Options_AllocatedStorage options\<rparr>));
          i = (if Options_BackupRetentionPeriod options = 0 then i
               else i\<lparr>BackupRetentionPeriod := Options_BackupRetentionPeriod options\<rparr>);
          i = (if Options_BinaryLogFormat options = [] then i
               else i\<lparr>BinaryLogFormat := Options_BinaryLogFormat options\<rparr>);
          i = i\<lparr>EnablePgCron := Options_EnablePgCron options\<rparr>;
          i = (if RDSPlan_DbVersion plan \<noteq> [] then i\<lparr>DbVersion := RDSPlan_DbVersion plan\<rparr>
               else i)
      in (err, i))"


text \<open>The zero values of the structs, as the literals \<^verbatim>\<open>RDSInstance{}\<close> etc. give them.\<close>

definition RDSInstance_zero :: "bool option RDSInstance" where
  "RDSInstance_zero =
     \<lparr>Database = [], DbType = [], DbVersion = [], AllocatedStorage = 0,
      BackupRetentionPeriod = 0, BinaryLogFormat = [], EnableFunctions = False,
      EnablePgCron = None, ParameterGroupFamily = []\<rparr>"

definition Options_zero :: Options where
  "Options_zero =
     \<lparr>Options_AllocatedStorage = 0, Options_BackupRetentionPeriod = 0,
      Options_BinaryLogFormat = [], Options_EnablePgCron = None\<rparr>"

definition RDSPlan_zero :: RDSPlan where
  "RDSPlan_zero = \<lparr>RDSPlan_DbVersion = []\<rparr>"

definition Settings_zero :: Settings where
  "Settings_zero = \<lparr>EnableFunctionsFeature = False\<rparr>"

record testCase =
  tc_options :: Options
  existingInstance :: "bool option RDSInstance"
  expectedInstance :: "bool option RDSInstance"
  expectErr :: bool
  tc_plan :: RDSPlan
  tc_settings :: Settings

definition mkCase ::
  "Options \<Rightarrow> bool option RDSInstance \<Rightarrow> bool option RDSInstance \<Rightarrow> bool \<Rightarrow> RDSPlan
     \<Rightarrow> testCase" where
  "mkCase opts existing expected e plan =
     \<lparr>tc_options = opts, existingInstance = existing, expectedInstance = expected,
      expectErr = e, tc_plan = plan, tc_settings = Settings_zero\<rparr>"

text \<open>The ten cases of \<^verbatim>\<open>TestModifyInstance\<close>, in the order of the source.\<close>

definition case_update_allocated_storage :: testCase where
  "case_update_allocated_storage =
     mkCase (Options_zero\<lparr>Options_AllocatedStorage := 20\<rparr>)
       (RDSInstance_zero\<lparr>AllocatedStorage := 10\<rparr>)
       (RDSInstance_zero\<lparr>AllocatedStorage := 20\<rparr>) False RDSPlan_zero"

definition case_allocated_storage_less :: testCase where
  "case_allocated_storage_less =
     mkCase (Options_zero\<lparr>Options_AllocatedStorage := 10\<rparr>)
       (RDSInstance_zero\<lparr>AllocatedStorage := 20\<rparr>)
       (RDSInstance_zero\<lparr>AllocatedStorage := 20\<rparr>) True RDSPlan_zero"

definition case_allocated_storage_empty :: testCase where
  "case_allocated_storage_empty =
     mkCase (Options_zero\<lparr>Options_AllocatedStorage := 0\<rparr>)
       (RDSInstance_zero\<lparr>AllocatedStorage := 20\<rparr>)
       (RDSInstance_zero\<lparr>AllocatedStorage := 20\<rparr>) False RDSPlan_zero"

definition case_update_backup_retention :: testCase where
  "case_update_backup_retention =
     mkCase (Options_zero\<lparr>Options_BackupRetentionPeriod := 20\<rparr>)
       (RDSInstance_zero\<lparr>BackupRetentionPeriod := 10\<rparr>)
       (RDSInstance_zero\<lparr>BackupRetentionPeriod := 20\<rparr>) False RDSPlan_zero"

definition case_no_update_backup_retention :: testCase where
  "case_no_update_backup_retention =
     mkCase (Options_zero\<lparr>Options_BackupRetentionPeriod := 0\<rparr>)
       (RDSInstance_zero\<lparr>BackupRetentionPeriod := 20\<rparr>)
       (RDSInstance_zero\<lparr>BackupRetentionPeriod := 20\<rparr>) False RDSPlan_zero"

definition case_update_binary_log_format :: testCase where
  "case_update_binary_log_format =
     mkCase (Options_zero\<lparr>Options_BinaryLogFormat := ''ROW''\<rparr>)
       RDSInstance_zero
       (RDSInstance_zero\<lparr>BinaryLogFormat := ''ROW''\<rparr>) False RDSPlan_zero"

definition case_enable_pg_cron :: testCase where
  "case_enable_pg_cron =
     mkCase (Options_zero\<lparr>Options_EnablePgCron := Some True\<rparr>)
       RDSInstance_zero
       (RDSInstance_zero\<lparr>EnablePgCron := Some True\<rparr>) False RDSPlan_zero"

definition case_pg_cron_not_specified :: testCase where
  "case_pg_cron_not_specified =
     mkCase Options_zero RDSInstance_zero RDSInstance_zero False RDSPlan_zero"

definition case_pg_cron_not_specified_true_on_existing :: testCase where
  "case_pg_cron_not_specified_true_on_existing =
     mkCase Options_zero
       (RDSInstance_zero\<lparr>EnablePgCron := Some True\<rparr>)
       RDSInstance_zero False RDSPlan_zero"

definition case_set_db_version_from_plan :: testCase where
  "case_set_db_version_from_plan =
     mkCase Options_zero RDSInstance_zero
       (RDSInstance_zero\<lparr>DbVersion := ''12''\<rparr>) False \<lparr>RDSPlan_DbVersion = ''12''\<rparr>"

definition testCases :: "testCase list" where
  "testCases =
     [case_update_allocated_storage, case_allocated_storage_less,
      case_allocated_storage_empty, case_update_backup_retention,
      case_no_update_backup_retention, case_update_binary_log_format,
      case_enable_pg_cron, case_pg_cron_not_specified,
      case_pg_cron_not_specified_true_on_existing, case_set_db_version_from_plan]"

text \<open>
  The body of the test loop: the case passes when no unexpected error is returned and the
  instance, after the call, is deeply equal to the expected one. The function under test is
  a parameter.
\<close>

definition casePasses ::
  "(bool option RDSInstance \<Rightarrow> Options \<Rightarrow> RDSPlan \<Rightarrow> Settings
      \<Rightarrow> error option \<times> bool option RDSInstance) \<Rightarrow> testCase \<Rightarrow> bool" where
  "casePasses f c =
     (case f (existingInstance c) (tc_options c) (tc_plan c) (tc_settings c) of
        (err, i') \<Rightarrow> \<not> (\<not> expectErr c \<and> err \<noteq> None) \<and> i' = expectedInstance c)"

section \<open>Definitions used to state the properties\<close>

text \<open>
  The version token as the specification words it: the leading major number, and, when a
  dot and a minor number follow it, the dot and the minor number. It is compared with
  \<open>reFindVersion\<close>, which is what the pattern of the code matches.
\<close>

definition majorMinorToken_spec :: "string \<Rightarrow> string" where
  "majorMinorToken_spec v =
     (let major = takeWhile isDigit v;
          rest = dropWhile isDigit v
      in if major = [] then []
         else (case rest of
                 [] \<Rightarrow> major
               | c # rest' \<Rightarrow>
                   if isDot c \<and> takeWhile isDigit rest' \<noteq> []
                   then major @ [c] @ takeWhile isDigit rest'
                   else major))"

text \<open>A version whose major number is followed by a dot that no digit follows.\<close>

definition danglingDot :: "string \<Rightarrow> bool" where
  "danglingDot v =
     (takeWhile isDigit v \<noteq> [] \<and>
      (case dropWhile isDigit v of
         [] \<Rightarrow> False
       | c # rest' \<Rightarrow> isDot c \<and> takeWhile isDigit rest' = []))"

text \<open>
  The first version of a response of \<^verbatim>\<open>DescribeDBEngineVersions\<close> is there and carries a
  family: what \<^verbatim>\<open>*defaultEngineInfo.DBEngineVersions[0].DBParameterGroupFamily\<close> needs.
\<close>

definition firstVersionHasFamily :: "DescribeDBEngineVersionsOutput option \<Rightarrow> bool" where
  "firstVersionHasFamily out =
     (case out of
        Some (Some v # _) \<Rightarrow> DBParameterGroupFamily v \<noteq> None
      | _ \<Rightarrow> False)"

text \<open>The instance \<open>i'\<close> is \<open>i\<close> but for the memoised family.\<close>

definition sameButFamily :: "'p RDSInstance \<Rightarrow> 'p RDSInstance \<Rightarrow> bool" where
  "sameButFamily i i' = (i' = i\<lparr>ParameterGroupFamily := ParameterGroupFamily i'\<rparr>)"

text \<open>
  One turn of the loop of \<^verbatim>\<open>getDefaultEngineParameter\<close>: fetch a page and scan it. The
  turn either ends the loop with a result (\<open>Inl\<close>), or asks for the next page with the
  marker of this one (\<open>Inr\<close>).
\<close>

definition fetchPage ::
  "'st RDSAPI \<Rightarrow> string \<Rightarrow> string \<Rightarrow> string option \<Rightarrow> 'st world
     \<Rightarrow> ((string \<times> error option) outcome \<times> 'st world) + (string option \<times> 'st world)" where
  "fetchPage svc paramName family marker w =
     (case svcDescribeEngineDefaultParameters svc family marker w of
        (Inl err, w') \<Rightarrow> Inl (Returns ([], Some err), w')
      | (Inr None, w') \<Rightarrow> Inl (Panics, w')
      | (Inr (Some None), w') \<Rightarrow> Inl (Panics, w')
      | (Inr (Some (Some defaults)), w') \<Rightarrow>
          (case scanParameters paramName (Parameters defaults) of
             NilDereference \<Rightarrow> Inl (Panics, w')
           | Found v \<Rightarrow>
               Inl (Returns (v, None),
                    logPrintf (''found default parameter value '' @ v
                      @ '' for parameter '' @ paramName) w')
           | NotFound \<Rightarrow>
               if Marker defaults = None \<or> Marker defaults = Some []
               then Inl (Returns ([], None), w')
               else Inr (Marker defaults, w')))"

text \<open>
  The marker and the world after \<open>n\<close> turns that all asked for the next page; \<open>None\<close> when
  one of them ended the loop.
\<close>

fun afterPages ::
  "nat \<Rightarrow> 'st RDSAPI \<Rightarrow> string \<Rightarrow> string \<Rightarrow> string option \<Rightarrow> 'st world
     \<Rightarrow> (string option \<times> 'st world) option" where
  "afterPages 0 svc paramName family marker w = Some (marker, w)"
| "afterPages (Suc n) svc paramName family marker w =
     (case fetchPage svc paramName family marker w of
        Inl _ \<Rightarrow> None
      | Inr (marker', w') \<Rightarrow> afterPages n svc paramName family marker' w')"


text \<open>The names of the groups that were asked to be deleted, in the order of the calls.\<close>

fun deleteCalls :: "event list \<Rightarrow> string list" where
  "deleteCalls [] = []"
| "deleteCalls (CallDeleteDBParameterGroup name # es) = name # deleteCalls es"
| "deleteCalls (_ # es) = deleteCalls es"




section \<open>Concrete inputs\<close>

text \<open>
  A control plane without state on which every call succeeds: every group exists, the
  default engine version has a family, and the catalogue of engine defaults has two pages,
  the second with an empty marker.
\<close>

definition quietControlPlane :: "unit RDSAPI" where
  "quietControlPlane =
     \<lparr>DescribeDBEngineVersions =
        (\<lambda>defaultOnly engine s.
           (Inr (Some [Some \<lparr>DBParameterGroupFamily = Some (engine @ ''15'')\<rparr>]), s)),
      DescribeDBParameters = (\<lambda>name maxRecords source s. (None, s)),
      CreateDBParameterGroup = (\<lambda>family name description s. (None, s)),
      ModifyDBParameterGroup = (\<lambda>name params s. (None, s)),
      DescribeEngineDefaultParameters =
        (\<lambda>family marker s.
           if marker = None then
             (Inr (Some (Some \<lparr>Parameters =
                     [Some \<lparr>ParameterName = Some ''max_connections'',
                            ParameterValue = Some ''100''\<rparr>],
                   Marker = Some ''page2''\<rparr>)), s)
           else
             (Inr (Some (Some \<lparr>Parameters =
                     [Some \<lparr>ParameterName = Some ''shared_preload_libraries'',
                            ParameterValue = Some ''pg_stat_statements''\<rparr>],
                   Marker = Some []\<rparr>)), s)),
      DescribeDBParameterGroupsPages = (\<lambda>s. (([], None), s)),
      DeleteDBParameterGroup = (\<lambda>name s. (None, s))\<rparr>"

text \<open>
  The same control plane, but the default engine version comes second in the response,
  after a version without family.
\<close>

definition familySecondControlPlane :: "unit RDSAPI" where
  "familySecondControlPlane =
     quietControlPlane\<lparr>DescribeDBEngineVersions :=
        (\<lambda>defaultOnly engine s.
           (Inr (Some [Some \<lparr>DBParameterGroupFamily = None\<rparr>,
                       Some \<lparr>DBParameterGroupFamily = Some (engine @ ''15'')\<rparr>]), s))\<rparr>"

text \<open>
  A control plane whose catalogue of engine defaults never ends: every page is empty and
  carries a marker.
\<close>

definition endlessControlPlane :: "unit RDSAPI" where
  "endlessControlPlane =
     quietControlPlane\<lparr>DescribeEngineDefaultParameters :=
        (\<lambda>family marker s. (Inr (Some (Some \<lparr>Parameters = [], Marker = Some ''next''\<rparr>)), s))\<rparr>"



definition postgresInstance :: "bool RDSInstance" where
  "postgresInstance =
     \<lparr>Database = ''db'', DbType = ''postgres'', DbVersion = ''12.5'', AllocatedStorage = 10,
      BackupRetentionPeriod = 0, BinaryLogFormat = [], EnableFunctions = False,
      EnablePgCron = True, ParameterGroupFamily = []\<rparr>"

definition psqlInstance :: "bool RDSInstance" where
  "psqlInstance =
     \<lparr>Database = ''db'', DbType = ''psql'', DbVersion = [], AllocatedStorage = 0,
      BackupRetentionPeriod = 0, BinaryLogFormat = ''ROW'', EnableFunctions = True,
      EnablePgCron = True, ParameterGroupFamily = []\<rparr>"

definition mysqlInstance :: "bool RDSInstance" where
  "mysqlInstance =
     \<lparr>Database = ''db'', DbType = ''mysql'', DbVersion = ''8.0.28'', AllocatedStorage = 10,
      BackupRetentionPeriod = 0, BinaryLogFormat = ''ROW'', EnableFunctions = False,
      EnablePgCron = False, ParameterGroupFamily = []\<rparr>"

section \<open>Properties of modify\<close>

lemma modify_passes_TestModifyInstance: "list_all (casePasses modify) testCases"
  by (simp add: testCases_def casePasses_def modify_def mkCase_def
      case_update_allocated_storage_def case_allocated_storage_less_def
      case_allocated_storage_empty_def case_update_backup_retention_def
      case_no_update_backup_retention_def case_update_binary_log_format_def
      case_enable_pg_cron_def case_pg_cron_not_specified_def
      case_pg_cron_not_specified_true_on_existing_def case_set_db_version_from_plan_def
      RDSInstance_zero_def Options_zero_def RDSPlan_zero_def Settings_zero_def)



text \<open>
  Claim C4. The allocated-storage policy of \<^verbatim>\<open>modify\<close>: a requested storage of 0 leaves
  the storage as it is; otherwise a requested storage below the current one makes the call
  fail and leaves the storage as it is; otherwise the call does not fail on storage and the
  storage is exactly the requested one.
\<close>

theorem modify_storage_policy:
  "(Options_AllocatedStorage options = 0 \<longrightarrow>
       AllocatedStorage (snd (modify i options plan s)) = AllocatedStorage i)
   \<and> (Options_AllocatedStorage options \<noteq> 0
        \<and> Options_AllocatedStorage options < AllocatedStorage i \<longrightarrow>
       fst (modify i options plan s) \<noteq> None
       \<and> AllocatedStorage (snd (modify i options plan s)) = AllocatedStorage i)
   \<and> (Options_AllocatedStorage options \<noteq> 0
        \<and> \<not> Options_AllocatedStorage options < AllocatedStorage i \<longrightarrow>
       fst (modify i options plan s) = None
       \<and> AllocatedStorage (snd (modify i options plan s)) = Options_AllocatedStorage options)"
  by (simp add: modify_def Let_def split: prod.splits if_splits)

theorem modify_storage_policy_witness:
  "AllocatedStorage (snd (modify (existingInstance case_allocated_storage_empty)
       (tc_options case_allocated_storage_empty) RDSPlan_zero Settings_zero)) = 20
   \<and> fst (modify (existingInstance case_allocated_storage_less)
       (tc_options case_allocated_storage_less) RDSPlan_zero Settings_zero) \<noteq> None
   \<and> AllocatedStorage (snd (modify (existingInstance case_allocated_storage_less)
       (tc_options case_allocated_storage_less) RDSPlan_zero Settings_zero)) = 20
   \<and> fst (modify (existingInstance case_update_allocated_storage)
       (tc_options case_update_allocated_storage) RDSPlan_zero Settings_zero) = None
   \<and> AllocatedStorage (snd (modify (existingInstance case_update_allocated_storage)
       (tc_options case_update_allocated_storage) RDSPlan_zero Settings_zero)) = 20"
  using
    modify_storage_policy [of "tc_options case_allocated_storage_empty"
      "existingInstance case_allocated_storage_empty" RDSPlan_zero Settings_zero]
    modify_storage_policy [of "tc_options case_allocated_storage_less"
      "existingInstance case_allocated_storage_less" RDSPlan_zero Settings_zero]
    modify_storage_policy [of "tc_options case_update_allocated_storage"
      "existingInstance case_update_allocated_storage" RDSPlan_zero Settings_zero]
  by (simp add: mkCase_def case_allocated_storage_empty_def case_allocated_storage_less_def
      case_update_allocated_storage_def RDSInstance_zero_def Options_zero_def)

section \<open>Properties of needCustomParameters and getCustomParameters\<close>

text \<open>
  Claim C3. \<^verbatim>\<open>needCustomParameters\<close> is true exactly when the engine type is mysql and
  both the instance's enable-functions flag and the settings' feature flag are set, or the
  engine type is mysql and the binary log format is not empty, or the engine type is
  postgres and pg-cron is enabled; for any engine type other than mysql and postgres it is
  false.
\<close>

theorem needCustomParameters_truth_table:
  "(needCustomParameters i s \<longleftrightarrow>
      (DbType i = ''mysql'' \<and> EnableFunctions i \<and> EnableFunctionsFeature s)
    \<or> (DbType i = ''mysql'' \<and> BinaryLogFormat i \<noteq> [])
    \<or> (DbType i = ''postgres'' \<and> EnablePgCron i))
   \<and> (DbType i \<noteq> ''mysql'' \<and> DbType i \<noteq> ''postgres'' \<longrightarrow> \<not> needCustomParameters i s)"
  by (auto simp: needCustomParameters_def)

theorem needCustomParameters_truth_table_witness:
  "DbType psqlInstance \<noteq> ''mysql'' \<and> DbType psqlInstance \<noteq> ''postgres''
   \<and> \<not> needCustomParameters psqlInstance \<lparr>EnableFunctionsFeature = True\<rparr>
   \<and> needCustomParameters mysqlInstance \<lparr>EnableFunctionsFeature = False\<rparr>"
  using needCustomParameters_truth_table [of psqlInstance "\<lparr>EnableFunctionsFeature = True\<rparr>"]
    needCustomParameters_truth_table [of mysqlInstance "\<lparr>EnableFunctionsFeature = False\<rparr>"]
  by (simp add: psqlInstance_def mysqlInstance_def)

lemma mysqlCustomParameters_mysql:
  assumes "DbType i = ''mysql''"
  shows "map_of (mysqlCustomParameters i s) ''mysql'' =
     Some ((''log_bin_trust_function_creators'',
             if EnableFunctions i \<and> EnableFunctionsFeature s then ''1'' else ''0'')
           # (if BinaryLogFormat i \<noteq> [] then [(''binlog_format'', BinaryLogFormat i)] else []))"
  using assms by (simp add: mysqlCustomParameters_def)

text \<open>
  Claim C6. For an instance of engine type mysql, \<^verbatim>\<open>getCustomParameters\<close> returns, without
  error and without calling the control plane, a parameter set whose mysql entry always
  holds \<^verbatim>\<open>log_bin_trust_function_creators\<close>, with value 1 when both the instance's
  enable-functions flag and the settings' feature flag are set and 0 otherwise; when the
  binary log format is not empty the entry also maps \<^verbatim>\<open>binlog_format\<close> to it.
\<close>

theorem getCustomParameters_mysql:
  assumes "DbType i = ''mysql''"
  shows "\<exists>ps m. getCustomParameters svc i s w = Some (Returns (ps, None), i, w)
           \<and> map_of ps ''mysql'' = Some m
           \<and> map_of m ''log_bin_trust_function_creators'' =
               Some (if EnableFunctions i \<and> EnableFunctionsFeature s then ''1'' else ''0'')
           \<and> (BinaryLogFormat i \<noteq> [] \<longrightarrow>
                map_of m ''binlog_format'' = Some (BinaryLogFormat i))"
  using assms mysqlCustomParameters_mysql [OF assms, of s]
  by (simp add: getCustomParameters_def)

theorem getCustomParameters_mysql_witness:
  "getCustomParameters quietControlPlane mysqlInstance \<lparr>EnableFunctionsFeature = True\<rparr>
       ((), []) =
     Some (Returns ([(''mysql'', [(''log_bin_trust_function_creators'', ''0''),
                                  (''binlog_format'', ''ROW'')])], None),
           mysqlInstance, ((), []))"
  using getCustomParameters_mysql [of mysqlInstance quietControlPlane
      "\<lparr>EnableFunctionsFeature = True\<rparr>" "((), [])"]
  by (simp add: getCustomParameters_def mysqlCustomParameters_def mysqlInstance_def)

section \<open>Properties of getParameterGroupFamily\<close>

lemma reFindVersion_spec_iff:
  "reFindVersion v = majorMinorToken_spec v \<longleftrightarrow> \<not> danglingDot v"
proof (cases "takeWhile isDigit v = []")
  case True
  then show ?thesis
    by (simp add: reFindVersion_def majorMinorToken_spec_def danglingDot_def Let_def)
next
  case major: False
  show ?thesis
  proof (cases "dropWhile isDigit v")
    case Nil
    show ?thesis
      unfolding reFindVersion_def majorMinorToken_spec_def danglingDot_def Let_def Nil
      using major by simp
  next
    case (Cons c rest')
    have nd: "\<not> isDigit c"
      using Cons by (metis hd_dropWhile list.sel(1) list.distinct(1))
    show ?thesis
    proof (cases "isDot c")
      case False
      with major Cons nd show ?thesis
        by (simp add: reFindVersion_def majorMinorToken_spec_def danglingDot_def Let_def)
    next
      case dot: True
      show ?thesis
      proof (cases "takeWhile isDigit rest' = []")
        case True
        with major Cons dot show ?thesis
          by (simp add: reFindVersion_def majorMinorToken_spec_def danglingDot_def Let_def)
      next
        case False
        then obtain d ds where r: "rest' = d # ds" and dd: "isDigit d"
          by (cases rest') (auto split: if_splits)
        have "\<not> isDot d"
          using dd by (auto simp: isDot_def isDigit_def)
        with major Cons dot r dd show ?thesis
          by (simp add: reFindVersion_def majorMinorToken_spec_def danglingDot_def Let_def)
      qed
    qed
  qed
qed

text \<open>
  Claim C7, with the token that the pattern of the code matches. When the family of the
  instance is already set, the resolver returns nil and leaves the instance and the world
  (the control plane and the record of calls) as they are. When the family is empty and the
  version is not, it returns nil, calls nothing, and sets the family to the engine type
  followed by the longest prefix of the version made of one or more digits, then any number
  of dots, then any number of digits (nothing when the version does not start with a
  digit). That prefix is the major number, with the dot and the minor number when they
  follow, unless the major number is followed by a dot that no digit follows.
\<close>

theorem getParameterGroupFamily_memo_and_version:
  "(ParameterGroupFamily i \<noteq> [] \<longrightarrow> getParameterGroupFamily svc i w = (Returns None, i, w))
   \<and> (ParameterGroupFamily i = [] \<and> DbVersion i \<noteq> [] \<longrightarrow>
        getParameterGroupFamily svc i w =
          (Returns None,
           i\<lparr>ParameterGroupFamily := DbType i @ reFindVersion (DbVersion i)\<rparr>, w))
   \<and> (\<not> danglingDot (DbVersion i) \<longrightarrow>
        reFindVersion (DbVersion i) = majorMinorToken_spec (DbVersion i))"
  by (simp add: getParameterGroupFamily_def reFindVersion_spec_iff)

theorem getParameterGroupFamily_memo_and_version_witness:
  "getParameterGroupFamily quietControlPlane postgresInstance ((), []) =
     (Returns None, postgresInstance\<lparr>ParameterGroupFamily := ''postgres12.5''\<rparr>, ((), []))
   \<and> majorMinorToken_spec (DbVersion postgresInstance) = ''12.5''
   \<and> getParameterGroupFamily quietControlPlane
        (postgresInstance\<lparr>ParameterGroupFamily := ''postgres11''\<rparr>) ((), []) =
     (Returns None, postgresInstance\<lparr>ParameterGroupFamily := ''postgres11''\<rparr>, ((), []))"
  using
    getParameterGroupFamily_memo_and_version [of postgresInstance quietControlPlane "((), [])"]
    getParameterGroupFamily_memo_and_version
      [of "postgresInstance\<lparr>ParameterGroupFamily := ''postgres11''\<rparr>" quietControlPlane
          "((), [])"]
  by (simp add: postgresInstance_def reFindVersion_def majorMinorToken_spec_def
      danglingDot_def isDot_def isDigit_def)

text \<open>
  The claim as the specification words it (the token is the major number, optionally with
  the minor number) fails on the version \<^verbatim>\<open>12.\<close>: the pattern also takes the dot, so the
  family is \<^verbatim>\<open>postgres12.\<close> and not \<^verbatim>\<open>postgres12\<close>.
\<close>

theorem getParameterGroupFamily_token_counterexample:
  "ParameterGroupFamily (fst (snd (getParameterGroupFamily quietControlPlane
         (postgresInstance\<lparr>DbVersion := ''12.''\<rparr>) ((), [])))) = ''postgres12.''
   \<and> DbType (postgresInstance\<lparr>DbVersion := ''12.''\<rparr>)
        @ majorMinorToken_spec (DbVersion (postgresInstance\<lparr>DbVersion := ''12.''\<rparr>))
      = ''postgres12''"
  by (simp add: getParameterGroupFamily_def postgresInstance_def reFindVersion_def
      majorMinorToken_spec_def isDot_def isDigit_def)

text \<open>
  Claim C10, with the precondition that the code needs. When neither the family nor the
  version of the instance is set and \<^verbatim>\<open>DescribeDBEngineVersions\<close> succeeds, the resolver
  panics exactly when the response is nil, has no version, or its first version is nil or
  has a nil family; it never turns that into an error. Otherwise it returns nil and stores
  the family of the first version.
\<close>

theorem getParameterGroupFamily_default_version:
  assumes "ParameterGroupFamily i = []" and "DbVersion i = []"
    and "svcDescribeDBEngineVersions svc True (DbType i) w = (Inr out, w')"
  shows "(fst (getParameterGroupFamily svc i w) = Panics \<longleftrightarrow> \<not> firstVersionHasFamily out)
     \<and> (firstVersionHasFamily out \<longrightarrow>
          (\<exists>v vs f. out = Some (Some v # vs) \<and> DBParameterGroupFamily v = Some f
             \<and> getParameterGroupFamily svc i w =
                 (Returns None, i\<lparr>ParameterGroupFamily := f\<rparr>, w')))"
  using assms
  by (auto simp: getParameterGroupFamily_def firstVersionHasFamily_def
      split: option.splits list.splits)

theorem getParameterGroupFamily_default_version_witness:
  "firstVersionHasFamily (Some [Some \<lparr>DBParameterGroupFamily = Some ''postgres15''\<rparr>])
   \<and> getParameterGroupFamily quietControlPlane (postgresInstance\<lparr>DbVersion := []\<rparr>) ((), []) =
       (Returns None,
        postgresInstance\<lparr>DbVersion := [], ParameterGroupFamily := ''postgres15''\<rparr>,
        ((), [CallDescribeDBEngineVersions True ''postgres'']))"
  using getParameterGroupFamily_default_version
    [of "postgresInstance\<lparr>DbVersion := []\<rparr>" quietControlPlane "((), [])"
        "Some [Some \<lparr>DBParameterGroupFamily = Some ''postgres15''\<rparr>]"
        "((), [CallDescribeDBEngineVersions True ''postgres''])"]
  by (simp add: postgresInstance_def quietControlPlane_def svcDescribeDBEngineVersions_def
      firstVersionHasFamily_def)

text \<open>
  A response that contains a version with a family, but not as its first version, still
  makes the resolver panic.
\<close>

theorem getParameterGroupFamily_family_second_counterexample:
  "svcDescribeDBEngineVersions familySecondControlPlane True ''postgres'' ((), []) =
     (Inr (Some [Some \<lparr>DBParameterGroupFamily = None\<rparr>,
                 Some \<lparr>DBParameterGroupFamily = Some ''postgres15''\<rparr>]),
      ((), [CallDescribeDBEngineVersions True ''postgres'']))
   \<and> fst (getParameterGroupFamily familySecondControlPlane
            (postgresInstance\<lparr>DbVersion := []\<rparr>) ((), [])) = Panics"
  by (simp add: getParameterGroupFamily_def postgresInstance_def familySecondControlPlane_def
      quietControlPlane_def svcDescribeDBEngineVersions_def)

section \<open>Properties of getDefaultEngineParameter\<close>

lemma loop_fetchPage:
  "getDefaultEngineParameter_loop svc paramName family marker w =
     (case fetchPage svc paramName family marker w of
        Inl r \<Rightarrow> Some r
      | Inr (marker', w') \<Rightarrow> getDefaultEngineParameter_loop svc paramName family marker' w')"
  by (subst getDefaultEngineParameter_loop.simps)
     (auto simp: fetchPage_def split: prod.splits sum.splits option.splits scanResult.splits)

lemma loop_afterPages:
  "afterPages n svc paramName family marker w = Some (marker', w') \<Longrightarrow>
     getDefaultEngineParameter_loop svc paramName family marker w =
     getDefaultEngineParameter_loop svc paramName family marker' w'"
proof (induction n arbitrary: marker w)
  case 0
  then show ?case by simp
next
  case (Suc n)
  then show ?case
    by (subst loop_fetchPage) (auto split: sum.splits prod.splits)
qed

lemma loop_stops:
  assumes "afterPages n svc paramName family marker w = Some (marker', w')"
    and "fetchPage svc paramName family marker' w' = Inl r"
  shows "getDefaultEngineParameter_loop svc paramName family marker w = Some r"
  using loop_afterPages [OF assms(1)] assms(2) by (simp add: loop_fetchPage [of _ _ _ marker' w'])

lemma loop_Some_stops:
  assumes "getDefaultEngineParameter_loop svc paramName family marker w = Some r"
  shows "\<exists>n marker' w'. afterPages n svc paramName family marker w = Some (marker', w')
           \<and> fetchPage svc paramName family marker' w' = Inl r"
proof (rule getDefaultEngineParameter_loop.raw_induct
    [where P = "\<lambda>svc paramName family marker w r.
       \<exists>n marker' w'. afterPages n svc paramName family marker w = Some (marker', w')
           \<and> fetchPage svc paramName family marker' w' = Inl r", OF _ assms])
  fix loop :: "'a RDSAPI \<Rightarrow> string \<Rightarrow> string \<Rightarrow> string option \<Rightarrow> 'a world
     \<Rightarrow> ((string \<times> error option) outcome \<times> 'a world) option"
  fix svc paramName family marker w r
  assume IH: "\<And>svc paramName family marker w r.
      loop svc paramName family marker w = Some r \<Longrightarrow>
      \<exists>n marker' w'. afterPages n svc paramName family marker w = Some (marker', w')
           \<and> fetchPage svc paramName family marker' w' = Inl r"
  assume body: "(case svcDescribeEngineDefaultParameters svc family marker w of
        (Inl err, w') \<Rightarrow> Some (Returns ([], Some err), w')
      | (Inr None, w') \<Rightarrow> Some (Panics, w')
      | (Inr (Some None), w') \<Rightarrow> Some (Panics, w')
      | (Inr (Some (Some defaults)), w') \<Rightarrow>
          (case scanParameters paramName (Parameters defaults) of
             NilDereference \<Rightarrow> Some (Panics, w')
           | Found v \<Rightarrow>
               Some (Returns (v, None),
                     logPrintf (''found default parameter value '' @ v
                       @ '' for parameter '' @ paramName) w')
           | NotFound \<Rightarrow>
               if Marker defaults = None \<or> Marker defaults = Some []
               then Some (Returns ([], None), w')
               else loop svc paramName family (Marker defaults) w')) = Some r"
  show "\<exists>n marker' w'. afterPages n svc paramName family marker w = Some (marker', w')
           \<and> fetchPage svc paramName family marker' w' = Inl r"
  proof (cases "fetchPage svc paramName family marker w")
    case (Inl r')
    with body have "r' = r"
      by (auto simp: fetchPage_def
          split: prod.splits sum.splits option.splits scanResult.splits if_splits)
    with Inl have "afterPages 0 svc paramName family marker w = Some (marker, w)
        \<and> fetchPage svc paramName family marker w = Inl r" by simp
    then show ?thesis by blast
  next
    case (Inr c)
    obtain m1 w1 where c: "c = (m1, w1)" by (cases c)
    from Inr c body have "loop svc paramName family m1 w1 = Some r"
      by (auto simp: fetchPage_def
          split: prod.splits sum.splits option.splits scanResult.splits if_splits)
    from IH [OF this] obtain n marker' w' where
      "afterPages n svc paramName family m1 w1 = Some (marker', w')"
      "fetchPage svc paramName family marker' w' = Inl r" by blast
    with Inr c have "afterPages (Suc n) svc paramName family marker w = Some (marker', w')
       \<and> fetchPage svc paramName family marker' w' = Inl r" by simp
    then show ?thesis by blast
  qed
qed



lemma scanParameters_NotFound_iff:
  "scanParameters paramName params = NotFound \<longleftrightarrow>
     (\<forall>p \<in> set params. \<exists>q name. p = Some q \<and> ParameterName q = Some name \<and> name \<noteq> paramName)"
  by (induction paramName params rule: scanParameters.induct)
     (auto split: option.splits if_splits)

lemma scanParameters_Found:
  "scanParameters paramName params = Found v \<Longrightarrow>
     \<exists>q. Some q \<in> set params \<and> ParameterName q = Some paramName \<and> ParameterValue q = Some v"
  by (induction paramName params rule: scanParameters.induct)
     (auto split: option.splits if_splits)

lemma fetchPage_Inr_iff:
  "fetchPage svc paramName family marker w = Inr (marker', w') \<longleftrightarrow>
     (\<exists>defaults.
        svcDescribeEngineDefaultParameters svc family marker w = (Inr (Some (Some defaults)), w')
        \<and> scanParameters paramName (Parameters defaults) = NotFound
        \<and> Marker defaults = marker' \<and> marker' \<noteq> None \<and> marker' \<noteq> Some [])"
  by (auto simp: fetchPage_def
      split: prod.splits sum.splits option.splits scanResult.splits if_splits)



text \<open>
  Claim C2, as the code has it. The loop returns \<open>r\<close> exactly when, after some number of
  pages that all asked for the next one, a turn ends with \<open>r\<close>; and a turn asks for the next
  page exactly when the page was fetched without error, no parameter on it has the requested
  name, and its marker is neither absent nor empty. So the loop stops at a page whose marker
  is absent or empty, at a page that holds the parameter, at a failed call and at a nil
  dereference, and at nothing else: the number of pages has no bound.
\<close>

theorem getDefaultEngineParameter_loop_stops_iff:
  "(getDefaultEngineParameter_loop svc paramName family marker w = Some r \<longleftrightarrow>
      (\<exists>n marker' w'. afterPages n svc paramName family marker w = Some (marker', w')
         \<and> fetchPage svc paramName family marker' w' = Inl r))
   \<and> (fetchPage svc paramName family marker w = Inr (m1, w1) \<longleftrightarrow>
      (\<exists>defaults.
        svcDescribeEngineDefaultParameters svc family marker w = (Inr (Some (Some defaults)), w1)
        \<and> scanParameters paramName (Parameters defaults) = NotFound
        \<and> Marker defaults = m1 \<and> m1 \<noteq> None \<and> m1 \<noteq> Some []))"
  using loop_Some_stops [of svc paramName family marker w r] loop_stops [of _ svc paramName family marker w _ _ r]
    fetchPage_Inr_iff [of svc paramName family marker w m1 w1]
  by blast

lemma fetchPage_endless:
  "fetchPage endlessControlPlane paramName family marker w \<noteq> Inl r"
  by (simp add: fetchPage_def endlessControlPlane_def quietControlPlane_def
      svcDescribeEngineDefaultParameters_def)

text \<open>
  Against a control plane whose every page carries a marker and never holds the parameter,
  the lookup does not return: there is no page count after which it gives up.
\<close>

theorem getDefaultEngineParameter_endless_counterexample:
  "getDefaultEngineParameter endlessControlPlane ''shared_preload_libraries'' postgresInstance
     ((), []) = None"
proof -
  have "getDefaultEngineParameter_loop endlessControlPlane ''shared_preload_libraries''
          ''postgres12.5'' None ((), []) = None"
  proof (cases "getDefaultEngineParameter_loop endlessControlPlane ''shared_preload_libraries''
          ''postgres12.5'' None ((), [])")
    case None
    then show ?thesis .
  next
    case (Some r)
    from loop_Some_stops [OF this] show ?thesis
      by (simp add: fetchPage_endless)
  qed
  then show ?thesis
    by (simp add: getDefaultEngineParameter_def getParameterGroupFamily_def postgresInstance_def
        reFindVersion_def isDigit_def isDot_def)
qed

section \<open>Properties of ProvisionCustomParameterGroupIfNecessary\<close>

lemma sameButFamily_refl [simp]: "sameButFamily i i"
  by (simp add: sameButFamily_def)

lemma sameButFamily_update [simp]: "sameButFamily i (i\<lparr>ParameterGroupFamily := f\<rparr>)"
  by (simp add: sameButFamily_def)






















section \<open>Properties of cleanupCustomParameterGroups\<close>

lemma deleteCalls_append: "deleteCalls (xs @ ys) = deleteCalls xs @ deleteCalls ys"
  by (induction xs rule: deleteCalls.induct) simp_all

lemma deleteCalls_logPrintf [simp]: "deleteCalls (snd (logPrintf line w)) = deleteCalls (snd w)"
  by (simp add: logPrintf_def deleteCalls_append)














end
